theory Spec2Isabelle
  imports Main "HOL-Library.Word"
begin

section \<open>Constants of auth.c\<close>

definition RSA_SERVER_CERT :: string where
  "RSA_SERVER_CERT = ''server.crt''"

definition RSA_SERVER_KEY :: string where
  "RSA_SERVER_KEY = ''server.key''"

definition RSA_KEY_BITS :: nat where
  "RSA_KEY_BITS = 4096"

definition PORT :: nat where
  "PORT = 8000"

definition REQ_DN_C :: string where "REQ_DN_C = ''US''"
definition REQ_DN_ST :: string where "REQ_DN_ST = ''MI''"
definition REQ_DN_L :: string where "REQ_DN_L = ''''"
definition REQ_DN_O :: string where "REQ_DN_O = ''Grand Valley State University''"
definition REQ_DN_OU :: string where "REQ_DN_OU = ''IT''"
definition REQ_DN_CN :: string where "REQ_DN_CN = ''www.gvsu.edu''"

text \<open>\<^verbatim>\<open>RSA_F4\<close> comes from \<^verbatim>\<open>openssl/rsa.h\<close> (\<^verbatim>\<open>#define RSA_F4 0x10001L\<close>).\<close>

definition RSA_F4 :: nat where
  "RSA_F4 = 65537"


section \<open>Data\<close>

text \<open>
  Pointers are addresses or \<^verbatim>\<open>NULL\<close> (\<open>None\<close>). Every C type has its own heap, so a
  pointer of one type never reaches an object of another, as in well-typed C.
  Cryptography is symbolic: a key pair is identified by its modulus, a signature records
  the digest, the key that made it and the data it covers.
\<close>

type_synonym addr = nat
type_synonym ptr = "addr option"
type_synonym byte = "8 word"

datatype digest = MD5 | SHA1 | SHA256 | SHA384 | SHA512

datatype cipher = DES_EDE3_CBC | AES_128_CBC | AES_256_CBC

text \<open>\<^verbatim>\<open>RSA\<close>: a generated key pair (modulus size, public exponent, modulus).\<close>

record rsa_key =
  rsa_bits :: nat
  rsa_e :: nat
  rsa_n :: nat

text \<open>The public half of a key pair, as \<^verbatim>\<open>X509_PUBKEY\<close> stores it.\<close>

datatype pubkey = RSA_public nat nat nat

definition pub_of :: "rsa_key \<Rightarrow> pubkey" where
  "pub_of k = RSA_public (rsa_bits k) (rsa_e k) (rsa_n k)"

text \<open>\<^verbatim>\<open>EVP_PKEY\<close>: empty until a key is assigned to it.\<close>

record evp_pkey =
  pkey_rsa :: "rsa_key option"

type_synonym x509_name = "(string \<times> string) list"

record req_sig =
  sig_md :: digest
  sig_by :: pubkey
  sig_subject :: x509_name
  sig_pubkey :: "pubkey option"

text \<open>\<^verbatim>\<open>X509_REQ\<close>: subject name, public key, and the signature once signed.\<close>

record x509_req =
  req_subject :: x509_name
  req_pubkey :: "pubkey option"
  req_signature :: "req_sig option"

text \<open>\<^verbatim>\<open>X509\<close>: a certificate; \<open>crt_signed_by\<close> is the public half of the signing key.\<close>

record x509 =
  crt_subject :: x509_name
  crt_issuer :: x509_name
  crt_pubkey :: pubkey
  crt_serial :: nat
  crt_signed_by :: "pubkey option"

text \<open>
  The state of the process: the log of function calls (of auth.c and of the libraries, in
  order), the typed heaps with their allocation counter, the caller's variables that
  out-parameters point to, the files, and the process-wide state of libcrypto.
  A \<^verbatim>\<open>BIO\<close> holds the bytes still to be read from it; a \<^verbatim>\<open>malloc\<close> buffer holds bytes that are
  written (\<open>Some\<close>) or not yet (\<open>None\<close>).
\<close>

record world =
  calls :: "string list"
  next_addr :: addr
  pkeys :: "addr \<rightharpoonup> evp_pkey"
  reqs :: "addr \<rightharpoonup> x509_req"
  certs :: "addr \<rightharpoonup> x509"
  bios :: "addr \<rightharpoonup> byte list"
  bufs :: "addr \<rightharpoonup> byte option list"
  pkey_vars :: "nat \<Rightarrow> ptr"
  req_vars :: "nat \<Rightarrow> ptr"
  crt_vars :: "nat \<Rightarrow> ptr"
  buf_vars :: "nat \<Rightarrow> ptr"
  size_vars :: "nat \<Rightarrow> nat"
  files :: "string \<rightharpoonup> byte list"
  err_strings_loaded :: bool
  algorithms_loaded :: bool
  config_loaded :: bool

text \<open>
  What the environment decides in one run. The library calls that \<^verbatim>\<open>generate_csr\<close> and
  \<^verbatim>\<open>load_ca\<close> rely on can fail here: allocation, key generation, setting the public key of
  a request (whose result line 87 discards), signing, and parsing a file's content. The
  other calls whose result auth.c discards (adding a name entry, \<^verbatim>\<open>BIO_new\<close>, \<^verbatim>\<open>malloc\<close>, the
  PEM writers) are modelled by what they do to their arguments.
  The PEM writer is a parameter: the bytes of a certificate, and of a private key in the
  clear and under a cipher and passphrase.
\<close>

record env =
  EVP_PKEY_new_ok :: bool
  X509_REQ_new_ok :: bool
  RSA_keygen :: "nat option"
  X509_REQ_set_pubkey_ok :: bool
  X509_REQ_sign_ok :: bool
  PEM_parse_X509 :: "byte list \<Rightarrow> x509 option"
  PEM_parse_PrivateKey :: "byte list \<Rightarrow> rsa_key option"
  PEM_X509_bytes :: "x509 \<Rightarrow> byte list"
  PEM_plain_PrivateKey :: "rsa_key \<Rightarrow> byte list"
  PEM_encrypted_PrivateKey :: "cipher \<Rightarrow> byte list \<Rightarrow> rsa_key \<Rightarrow> byte list"

text \<open>
  Undefined behaviour is a value: dereferencing \<^verbatim>\<open>NULL\<close>, and handing a library a pointer
  that is neither \<^verbatim>\<open>NULL\<close> nor a live object of its type (a dangling or indeterminate one).
\<close>

datatype fault = NullDereference | InvalidPointer

type_synonym 'a run = "world \<Rightarrow> fault + 'a \<times> world"

definition ret :: "'a \<Rightarrow> 'a run" where
  "ret x w = Inr (x, w)"

definition and_then :: "'a run \<Rightarrow> ('a \<Rightarrow> 'b run) \<Rightarrow> 'b run" where
  "and_then m f w = (case m w of Inl e \<Rightarrow> Inl e | Inr (x, w') \<Rightarrow> f x w')"

definition call :: "string \<Rightarrow> unit run" where
  "call f w = Inr ((), w\<lparr>calls := calls w @ [f]\<rparr>)"

text \<open>Reading and writing the caller's variable through an out-parameter (\<^verbatim>\<open>*key\<close>).\<close>

definition get_pkey_var :: "nat option \<Rightarrow> ptr run" where
  "get_pkey_var r w = (case r of None \<Rightarrow> Inl NullDereference | Some v \<Rightarrow> Inr (pkey_vars w v, w))"

definition set_pkey_var :: "nat option \<Rightarrow> ptr \<Rightarrow> unit run" where
  "set_pkey_var r p w =
     (case r of None \<Rightarrow> Inl NullDereference
      | Some v \<Rightarrow> Inr ((), w\<lparr>pkey_vars := (pkey_vars w)(v := p)\<rparr>))"

definition get_req_var :: "nat option \<Rightarrow> ptr run" where
  "get_req_var r w = (case r of None \<Rightarrow> Inl NullDereference | Some v \<Rightarrow> Inr (req_vars w v, w))"

definition set_req_var :: "nat option \<Rightarrow> ptr \<Rightarrow> unit run" where
  "set_req_var r p w =
     (case r of None \<Rightarrow> Inl NullDereference
      | Some v \<Rightarrow> Inr ((), w\<lparr>req_vars := (req_vars w)(v := p)\<rparr>))"

definition get_crt_var :: "nat option \<Rightarrow> ptr run" where
  "get_crt_var r w = (case r of None \<Rightarrow> Inl NullDereference | Some v \<Rightarrow> Inr (crt_vars w v, w))"

definition set_crt_var :: "nat option \<Rightarrow> ptr \<Rightarrow> unit run" where
  "set_crt_var r p w =
     (case r of None \<Rightarrow> Inl NullDereference
      | Some v \<Rightarrow> Inr ((), w\<lparr>crt_vars := (crt_vars w)(v := p)\<rparr>))"

definition get_buf_var :: "nat option \<Rightarrow> ptr run" where
  "get_buf_var r w = (case r of None \<Rightarrow> Inl NullDereference | Some v \<Rightarrow> Inr (buf_vars w v, w))"

definition set_buf_var :: "nat option \<Rightarrow> ptr \<Rightarrow> unit run" where
  "set_buf_var r p w =
     (case r of None \<Rightarrow> Inl NullDereference
      | Some v \<Rightarrow> Inr ((), w\<lparr>buf_vars := (buf_vars w)(v := p)\<rparr>))"

definition get_size_var :: "nat option \<Rightarrow> nat run" where
  "get_size_var r w = (case r of None \<Rightarrow> Inl NullDereference | Some v \<Rightarrow> Inr (size_vars w v, w))"

definition set_size_var :: "nat option \<Rightarrow> nat \<Rightarrow> unit run" where
  "set_size_var r n w =
     (case r of None \<Rightarrow> Inl NullDereference
      | Some v \<Rightarrow> Inr ((), w\<lparr>size_vars := (size_vars w)(v := n)\<rparr>))"


section \<open>The OpenSSL and libc calls auth.c makes\<close>

text \<open>
  These are not functions of the repository. Each is modelled by its documented contract,
  on the symbolic data above, and logs its name.
\<close>

definition EVP_PKEY_new :: "env \<Rightarrow> ptr run" where
  "EVP_PKEY_new E = and_then (call ''EVP_PKEY_new'') (\<lambda>_ w.
     if EVP_PKEY_new_ok E
     then Inr (Some (next_addr w),
               w\<lparr>next_addr := Suc (next_addr w),
                 pkeys := (pkeys w)(next_addr w \<mapsto> \<lparr>pkey_rsa = None\<rparr>)\<rparr>)
     else Inr (None, w))"

definition EVP_PKEY_free :: "ptr \<Rightarrow> unit run" where
  "EVP_PKEY_free p = and_then (call ''EVP_PKEY_free'') (\<lambda>_ w.
     case p of None \<Rightarrow> Inr ((), w)
     | Some a \<Rightarrow> (case pkeys w a of None \<Rightarrow> Inl InvalidPointer
                  | Some _ \<Rightarrow> Inr ((), w\<lparr>pkeys := (pkeys w)(a := None)\<rparr>)))"

definition X509_REQ_new :: "env \<Rightarrow> ptr run" where
  "X509_REQ_new E = and_then (call ''X509_REQ_new'') (\<lambda>_ w.
     if X509_REQ_new_ok E
     then Inr (Some (next_addr w),
               w\<lparr>next_addr := Suc (next_addr w),
                 reqs := (reqs w)(next_addr w \<mapsto>
                   \<lparr>req_subject = [], req_pubkey = None, req_signature = None\<rparr>)\<rparr>)
     else Inr (None, w))"

definition X509_REQ_free :: "ptr \<Rightarrow> unit run" where
  "X509_REQ_free p = and_then (call ''X509_REQ_free'') (\<lambda>_ w.
     case p of None \<Rightarrow> Inr ((), w)
     | Some a \<Rightarrow> (case reqs w a of None \<Rightarrow> Inl InvalidPointer
                  | Some _ \<Rightarrow> Inr ((), w\<lparr>reqs := (reqs w)(a := None)\<rparr>)))"

text \<open>
  \<^verbatim>\<open>RSA_generate_key(bits, e, NULL, NULL)\<close>: a fresh key pair with a modulus of \<open>bits\<close> bits and
  public exponent \<open>e\<close>, or \<^verbatim>\<open>NULL\<close>. The \<^verbatim>\<open>RSA *\<close> is passed by value here; the \<^verbatim>\<open>EVP_PKEY\<close> it
  is assigned to owns it.
\<close>

definition RSA_generate_key :: "env \<Rightarrow> nat \<Rightarrow> nat \<Rightarrow> rsa_key option run" where
  "RSA_generate_key E bits e = and_then (call ''RSA_generate_key'') (\<lambda>_.
     ret (case RSA_keygen E of None \<Rightarrow> None
          | Some n \<Rightarrow> Some \<lparr>rsa_bits = bits, rsa_e = e, rsa_n = n\<rparr>))"

text \<open>
  \<^verbatim>\<open>EVP_PKEY_assign_RSA(pkey, rsa)\<close>: 0 for a \<^verbatim>\<open>NULL\<close> \<open>pkey\<close>; otherwise stores \<open>rsa\<close> and
  answers whether it is not \<^verbatim>\<open>NULL\<close>.
\<close>

definition EVP_PKEY_assign_RSA :: "ptr \<Rightarrow> rsa_key option \<Rightarrow> int run" where
  "EVP_PKEY_assign_RSA pkey rsa = and_then (call ''EVP_PKEY_assign_RSA'') (\<lambda>_ w.
     case pkey of None \<Rightarrow> Inr (0, w)
     | Some a \<Rightarrow> (case pkeys w a of None \<Rightarrow> Inl InvalidPointer
                  | Some _ \<Rightarrow> Inr (if rsa = None then 0 else 1,
                                   w\<lparr>pkeys := (pkeys w)(a \<mapsto> \<lparr>pkey_rsa = rsa\<rparr>)\<rparr>)))"

text \<open>
  \<^verbatim>\<open>X509_REQ_set_pubkey(req, pkey)\<close>: copies the public half of the key into the request
  and answers 1; answers 0 and changes nothing when \<open>pkey\<close> holds no key or when the copy
  cannot be made (it allocates).
\<close>

definition X509_REQ_set_pubkey :: "env \<Rightarrow> ptr \<Rightarrow> ptr \<Rightarrow> int run" where
  "X509_REQ_set_pubkey E req pkey = and_then (call ''X509_REQ_set_pubkey'') (\<lambda>_ w.
     case req of None \<Rightarrow> Inr (0, w)
     | Some r \<Rightarrow> (case reqs w r of None \<Rightarrow> Inl InvalidPointer
        | Some R \<Rightarrow> (case pkey of None \<Rightarrow> Inl NullDereference
           | Some a \<Rightarrow> (case pkeys w a of None \<Rightarrow> Inl InvalidPointer
              | Some K \<Rightarrow> (case pkey_rsa K of None \<Rightarrow> Inr (0, w)
                 | Some k \<Rightarrow>
                     if X509_REQ_set_pubkey_ok E
                     then Inr (1, w\<lparr>reqs := (reqs w)(r \<mapsto>
                                   R\<lparr>req_pubkey := Some (pub_of k)\<rparr>)\<rparr>)
                     else Inr (0, w))))))"

text \<open>
  \<^verbatim>\<open>X509_REQ_get_subject_name(req)\<close> points into the request: the name is addressed by the
  request's own address.
\<close>

definition X509_REQ_get_subject_name :: "ptr \<Rightarrow> ptr run" where
  "X509_REQ_get_subject_name req = and_then (call ''X509_REQ_get_subject_name'') (\<lambda>_ w.
     case req of None \<Rightarrow> Inl NullDereference
     | Some r \<Rightarrow> (case reqs w r of None \<Rightarrow> Inl InvalidPointer | Some _ \<Rightarrow> Inr (Some r, w)))"

text \<open>
  \<^verbatim>\<open>X509_NAME_add_entry_by_txt(name, field, MBSTRING_ASC, bytes, -1, -1, 0)\<close>: appends the
  entry. The attribute types used here have a minimum length of 1 in OpenSSL's string
  table, so an empty value is refused (result 0, nothing appended).
\<close>

definition X509_NAME_add_entry_by_txt :: "ptr \<Rightarrow> string \<Rightarrow> string \<Rightarrow> int run" where
  "X509_NAME_add_entry_by_txt name field bytes =
     and_then (call ''X509_NAME_add_entry_by_txt'') (\<lambda>_ w.
       case name of None \<Rightarrow> Inl NullDereference
       | Some r \<Rightarrow> (case reqs w r of None \<Rightarrow> Inl InvalidPointer
          | Some R \<Rightarrow>
              if bytes = [] then Inr (0, w)
              else Inr (1, w\<lparr>reqs := (reqs w)(r \<mapsto>
                     R\<lparr>req_subject := req_subject R @ [(field, bytes)]\<rparr>)\<rparr>)))"

definition EVP_sha256 :: digest where
  "EVP_sha256 = SHA256"

text \<open>
  \<^verbatim>\<open>X509_REQ_sign(req, pkey, md)\<close>: signs the request's subject and public key as they are
  now, with the private half of \<open>pkey\<close> and the digest \<open>md\<close>. The result is the size of the
  signature in bytes, 0 on failure.
\<close>

definition X509_REQ_sign :: "env \<Rightarrow> ptr \<Rightarrow> ptr \<Rightarrow> digest \<Rightarrow> int run" where
  "X509_REQ_sign E req pkey md = and_then (call ''X509_REQ_sign'') (\<lambda>_ w.
     case req of None \<Rightarrow> Inl NullDereference
     | Some r \<Rightarrow> (case reqs w r of None \<Rightarrow> Inl InvalidPointer
        | Some R \<Rightarrow> (case pkey of None \<Rightarrow> Inl NullDereference
           | Some a \<Rightarrow> (case pkeys w a of None \<Rightarrow> Inl InvalidPointer
              | Some K \<Rightarrow> (case pkey_rsa K of None \<Rightarrow> Inr (0, w)
                 | Some k \<Rightarrow>
                     if X509_REQ_sign_ok E
                     then Inr (int (rsa_bits k div 8),
                               w\<lparr>reqs := (reqs w)(r \<mapsto> R\<lparr>req_signature := Some
                                   \<lparr>sig_md = md, sig_by = pub_of k,
                                    sig_subject = req_subject R,
                                    sig_pubkey = req_pubkey R\<rparr>\<rparr>)\<rparr>)
                     else Inr (0, w))))))"

text \<open>
  \<^verbatim>\<open>X509_REQ_verify(req, pub)\<close>: the request is signed, by the private half of \<open>pub\<close>, over
  the subject and public key it holds now.
\<close>

definition X509_REQ_verify :: "x509_req \<Rightarrow> pubkey \<Rightarrow> bool" where
  "X509_REQ_verify R pub =
     (case req_signature R of None \<Rightarrow> False
      | Some s \<Rightarrow> sig_by s = pub \<and> sig_subject s = req_subject R \<and> sig_pubkey s = req_pubkey R)"


text \<open>
  The process-wide set-up and tear-down calls of libcrypto. None of them has a result;
  \<^verbatim>\<open>OPENSSL_config\<close> ignores errors, as its manual says.
\<close>

definition ERR_load_crypto_strings :: "unit run" where
  "ERR_load_crypto_strings = and_then (call ''ERR_load_crypto_strings'') (\<lambda>_ w.
     Inr ((), w\<lparr>err_strings_loaded := True\<rparr>))"

definition OpenSSL_add_all_algorithms :: "unit run" where
  "OpenSSL_add_all_algorithms = and_then (call ''OpenSSL_add_all_algorithms'') (\<lambda>_ w.
     Inr ((), w\<lparr>algorithms_loaded := True\<rparr>))"

definition OPENSSL_config :: "string option \<Rightarrow> unit run" where
  "OPENSSL_config config_name = and_then (call ''OPENSSL_config'') (\<lambda>_ w.
     Inr ((), w\<lparr>config_loaded := True\<rparr>))"

definition EVP_cleanup :: "unit run" where
  "EVP_cleanup = and_then (call ''EVP_cleanup'') (\<lambda>_ w.
     Inr ((), w\<lparr>algorithms_loaded := False\<rparr>))"

definition CRYPTO_cleanup_all_ex_data :: "unit run" where
  "CRYPTO_cleanup_all_ex_data = call ''CRYPTO_cleanup_all_ex_data''"

definition ERR_free_strings :: "unit run" where
  "ERR_free_strings = and_then (call ''ERR_free_strings'') (\<lambda>_ w.
     Inr ((), w\<lparr>err_strings_loaded := False\<rparr>))"

definition ERR_remove_thread_state :: "nat option \<Rightarrow> unit run" where
  "ERR_remove_thread_state tid = call ''ERR_remove_thread_state''"

text \<open>
  \<^verbatim>\<open>BIO_new(BIO_s_mem())\<close> and \<^verbatim>\<open>BIO_new(BIO_s_file())\<close>: a new, empty \<^verbatim>\<open>BIO\<close>. auth.c never tests
  the result.
\<close>

datatype bio_method = BIO_s_mem | BIO_s_file

definition BIO_new :: "bio_method \<Rightarrow> ptr run" where
  "BIO_new m = and_then (call ''BIO_new'') (\<lambda>_ w.
     Inr (Some (next_addr w),
          w\<lparr>next_addr := Suc (next_addr w), bios := (bios w)(next_addr w \<mapsto> [])\<rparr>))"

definition BIO_free_all :: "ptr \<Rightarrow> unit run" where
  "BIO_free_all p = and_then (call ''BIO_free_all'') (\<lambda>_ w.
     case p of None \<Rightarrow> Inr ((), w)
     | Some a \<Rightarrow> (case bios w a of None \<Rightarrow> Inl InvalidPointer
                  | Some _ \<Rightarrow> Inr ((), w\<lparr>bios := (bios w)(a := None)\<rparr>)))"

text \<open>\<^verbatim>\<open>BIO_read_filename(bio, path)\<close>: opens the file for reading; 0 when it cannot.\<close>

definition BIO_read_filename :: "ptr \<Rightarrow> string \<Rightarrow> int run" where
  "BIO_read_filename bio path = and_then (call ''BIO_read_filename'') (\<lambda>_ w.
     case bio of None \<Rightarrow> Inr (0, w)
     | Some b \<Rightarrow> (case bios w b of None \<Rightarrow> Inl InvalidPointer
        | Some _ \<Rightarrow> (case files w path of None \<Rightarrow> Inr (0, w)
           | Some content \<Rightarrow> Inr (1, w\<lparr>bios := (bios w)(b \<mapsto> content)\<rparr>))))"

text \<open>
  \<^verbatim>\<open>PEM_read_bio_X509(bio, NULL, NULL, NULL)\<close> and \<^verbatim>\<open>PEM_read_bio_PrivateKey(bio, NULL, NULL,
  NULL)\<close>: a new object decoded from the bytes of the \<^verbatim>\<open>BIO\<close>, or \<^verbatim>\<open>NULL\<close>. What is left in
  the \<^verbatim>\<open>BIO\<close> afterwards is not modelled; auth.c frees it next.
\<close>

definition PEM_read_bio_X509 :: "env \<Rightarrow> ptr \<Rightarrow> ptr run" where
  "PEM_read_bio_X509 E bio = and_then (call ''PEM_read_bio_X509'') (\<lambda>_ w.
     case bio of None \<Rightarrow> Inl NullDereference
     | Some b \<Rightarrow> (case bios w b of None \<Rightarrow> Inl InvalidPointer
        | Some content \<Rightarrow> (case PEM_parse_X509 E content of None \<Rightarrow> Inr (None, w)
           | Some C \<Rightarrow> Inr (Some (next_addr w),
                            w\<lparr>next_addr := Suc (next_addr w),
                              certs := (certs w)(next_addr w \<mapsto> C)\<rparr>))))"

definition PEM_read_bio_PrivateKey :: "env \<Rightarrow> ptr \<Rightarrow> ptr run" where
  "PEM_read_bio_PrivateKey E bio = and_then (call ''PEM_read_bio_PrivateKey'') (\<lambda>_ w.
     case bio of None \<Rightarrow> Inl NullDereference
     | Some b \<Rightarrow> (case bios w b of None \<Rightarrow> Inl InvalidPointer
        | Some content \<Rightarrow> (case PEM_parse_PrivateKey E content of None \<Rightarrow> Inr (None, w)
           | Some k \<Rightarrow> Inr (Some (next_addr w),
                            w\<lparr>next_addr := Suc (next_addr w),
                              pkeys := (pkeys w)(next_addr w \<mapsto> \<lparr>pkey_rsa = Some k\<rparr>)\<rparr>))))"

definition X509_free :: "ptr \<Rightarrow> unit run" where
  "X509_free p = and_then (call ''X509_free'') (\<lambda>_ w.
     case p of None \<Rightarrow> Inr ((), w)
     | Some a \<Rightarrow> (case certs w a of None \<Rightarrow> Inl InvalidPointer
                  | Some _ \<Rightarrow> Inr ((), w\<lparr>certs := (certs w)(a := None)\<rparr>)))"

text \<open>\<^verbatim>\<open>PEM_write_bio_X509(bio, crt)\<close>: appends the PEM text of the certificate to the \<^verbatim>\<open>BIO\<close>.\<close>

definition PEM_write_bio_X509 :: "env \<Rightarrow> ptr \<Rightarrow> ptr \<Rightarrow> int run" where
  "PEM_write_bio_X509 E bio crt = and_then (call ''PEM_write_bio_X509'') (\<lambda>_ w.
     case bio of None \<Rightarrow> Inl NullDereference
     | Some b \<Rightarrow> (case bios w b of None \<Rightarrow> Inl InvalidPointer
        | Some pending \<Rightarrow> (case crt of None \<Rightarrow> Inl NullDereference
           | Some a \<Rightarrow> (case certs w a of None \<Rightarrow> Inl InvalidPointer
              | Some C \<Rightarrow> Inr (1, w\<lparr>bios := (bios w)(b \<mapsto> pending @ PEM_X509_bytes E C)\<rparr>)))))"

text \<open>
  \<^verbatim>\<open>PEM_write_bio_PrivateKey(bio, key, enc, kstr, klen, cb, u)\<close>: appends the PEM text of the
  private key to the \<^verbatim>\<open>BIO\<close>: in the clear when \<open>enc\<close> is \<^verbatim>\<open>NULL\<close>, otherwise encrypted with
  the cipher \<open>enc\<close> under the passphrase (\<open>kstr\<close> of length \<open>klen\<close>, or else \<open>u\<close>; prompting
  through \<open>cb\<close> is not modelled). 0 and nothing written when \<open>key\<close> holds no key.
\<close>

definition PEM_write_bio_PrivateKey ::
  "env \<Rightarrow> ptr \<Rightarrow> ptr \<Rightarrow> cipher option \<Rightarrow> byte list option \<Rightarrow> int \<Rightarrow> unit option \<Rightarrow>
   byte list option \<Rightarrow> int run" where
  "PEM_write_bio_PrivateKey E bio key enc kstr klen cb u =
     and_then (call ''PEM_write_bio_PrivateKey'') (\<lambda>_ w.
       case bio of None \<Rightarrow> Inl NullDereference
       | Some b \<Rightarrow> (case bios w b of None \<Rightarrow> Inl InvalidPointer
          | Some pending \<Rightarrow> (case key of None \<Rightarrow> Inl NullDereference
             | Some a \<Rightarrow> (case pkeys w a of None \<Rightarrow> Inl InvalidPointer
                | Some K \<Rightarrow> (case pkey_rsa K of None \<Rightarrow> Inr (0, w)
                   | Some k \<Rightarrow> Inr (1, w\<lparr>bios := (bios w)(b \<mapsto> pending @
                       (case enc of None \<Rightarrow> PEM_plain_PrivateKey E k
                        | Some c \<Rightarrow> PEM_encrypted_PrivateKey E c
                            (case kstr of Some s \<Rightarrow> take (nat klen) s
                             | None \<Rightarrow> (case u of Some s \<Rightarrow> s | None \<Rightarrow> [])) k))\<rparr>))))))"

text \<open>\<^verbatim>\<open>BIO_pending(bio)\<close>: the number of bytes waiting in the \<^verbatim>\<open>BIO\<close>.\<close>

definition BIO_pending :: "ptr \<Rightarrow> nat run" where
  "BIO_pending bio = and_then (call ''BIO_pending'') (\<lambda>_ w.
     case bio of None \<Rightarrow> Inr (0, w)
     | Some b \<Rightarrow> (case bios w b of None \<Rightarrow> Inl InvalidPointer
                  | Some pending \<Rightarrow> Inr (length pending, w)))"

text \<open>\<^verbatim>\<open>malloc(n)\<close>: \<open>n\<close> bytes, none of them written. auth.c never tests the result.\<close>

definition malloc :: "nat \<Rightarrow> ptr run" where
  "malloc n = and_then (call ''malloc'') (\<lambda>_ w.
     Inr (Some (next_addr w),
          w\<lparr>next_addr := Suc (next_addr w),
            bufs := (bufs w)(next_addr w \<mapsto> replicate n None)\<rparr>))"

text \<open>
  \<^verbatim>\<open>BIO_read(bio, buf, len)\<close>: moves up to \<open>len\<close> waiting bytes to the start of \<open>buf\<close> and
  answers how many; writing past the end of \<open>buf\<close> is undefined.
\<close>

definition BIO_read :: "ptr \<Rightarrow> ptr \<Rightarrow> nat \<Rightarrow> int run" where
  "BIO_read bio buf len = and_then (call ''BIO_read'') (\<lambda>_ w.
     case bio of None \<Rightarrow> Inr (0, w)
     | Some b \<Rightarrow> (case bios w b of None \<Rightarrow> Inl InvalidPointer
        | Some pending \<Rightarrow> (case buf of None \<Rightarrow> Inl NullDereference
           | Some p \<Rightarrow> (case bufs w p of None \<Rightarrow> Inl InvalidPointer
              | Some cells \<Rightarrow>
                  if length cells < min len (length pending) then Inl InvalidPointer
                  else Inr (int (min len (length pending)),
                            w\<lparr>bios := (bios w)(b \<mapsto> drop len pending),
                              bufs := (bufs w)(p \<mapsto> map Some (take len pending) @
                                        drop (min len (length pending)) cells)\<rparr>)))))"


section \<open>auth.c\<close>

subsection \<open>generate_csr\<close>

text \<open>The \<^verbatim>\<open>err:\<close> label of \<^verbatim>\<open>generate_csr\<close>.\<close>

definition generate_csr_err :: "nat option \<Rightarrow> nat option \<Rightarrow> int run" where
  "generate_csr_err key req =
     and_then (get_pkey_var key) (\<lambda>k.
     and_then (EVP_PKEY_free k) (\<lambda>_.
     and_then (get_req_var req) (\<lambda>r.
     and_then (X509_REQ_free r) (\<lambda>_.
     ret 0))))"

definition generate_csr :: "env \<Rightarrow> nat option \<Rightarrow> nat option \<Rightarrow> int run" where
  "generate_csr E key req =
     and_then (call ''generate_csr'') (\<lambda>_.
     and_then (EVP_PKEY_new E) (\<lambda>k0.
     and_then (set_pkey_var key k0) (\<lambda>_.
     and_then (get_pkey_var key) (\<lambda>k1.
     if k1 = None then generate_csr_err key req else
     and_then (X509_REQ_new E) (\<lambda>r0.
     and_then (set_req_var req r0) (\<lambda>_.
     and_then (get_req_var req) (\<lambda>r1.
     if r1 = None then generate_csr_err key req else
     and_then (RSA_generate_key E RSA_KEY_BITS RSA_F4) (\<lambda>rsa.
     and_then (get_pkey_var key) (\<lambda>k2.
     and_then (EVP_PKEY_assign_RSA k2 rsa) (\<lambda>assigned.
     if assigned = 0 then generate_csr_err key req else
     and_then (get_req_var req) (\<lambda>r2.
     and_then (get_pkey_var key) (\<lambda>k3.
     and_then (X509_REQ_set_pubkey E r2 k3) (\<lambda>_.
     and_then (get_req_var req) (\<lambda>r3.
     and_then (X509_REQ_get_subject_name r3) (\<lambda>name.
     and_then (X509_NAME_add_entry_by_txt name ''C'' REQ_DN_C) (\<lambda>_.
     and_then (X509_NAME_add_entry_by_txt name ''ST'' REQ_DN_ST) (\<lambda>_.
     and_then (X509_NAME_add_entry_by_txt name ''L'' REQ_DN_L) (\<lambda>_.
     and_then (X509_NAME_add_entry_by_txt name ''O'' REQ_DN_O) (\<lambda>_.
     and_then (X509_NAME_add_entry_by_txt name ''OU'' REQ_DN_OU) (\<lambda>_.
     and_then (X509_NAME_add_entry_by_txt name ''CN'' REQ_DN_CN) (\<lambda>_.
     and_then (get_req_var req) (\<lambda>r4.
     and_then (get_pkey_var key) (\<lambda>k4.
     and_then (X509_REQ_sign E r4 k4 EVP_sha256) (\<lambda>signed.
     if signed = 0 then generate_csr_err key req else
     ret 1))))))))))))))))))))))))"

subsection \<open>initialize and cleanup\<close>

definition initialize :: "unit run" where
  "initialize =
     and_then (call ''initialize'') (\<lambda>_.
     and_then ERR_load_crypto_strings (\<lambda>_.
     and_then OpenSSL_add_all_algorithms (\<lambda>_.
     OPENSSL_config None)))"

definition cleanup :: "unit run" where
  "cleanup =
     and_then (call ''cleanup'') (\<lambda>_.
     and_then EVP_cleanup (\<lambda>_.
     and_then CRYPTO_cleanup_all_ex_data (\<lambda>_.
     and_then ERR_free_strings (\<lambda>_.
     ERR_remove_thread_state None))))"

subsection \<open>crt_to_pem and key_to_pem\<close>

text \<open>
  \<open>crt_bytes\<close>, \<open>key_bytes\<close> and \<open>crt_size\<close>, \<open>key_size\<close> are the out-parameters
  (\<^verbatim>\<open>uint8_t **\<close>, \<^verbatim>\<open>size_t *\<close>). The sizes involved are those of one PEM document, far below
  the limits of \<^verbatim>\<open>size_t\<close> and \<^verbatim>\<open>int\<close>, and are natural numbers here.
\<close>

definition crt_to_pem :: "env \<Rightarrow> ptr \<Rightarrow> nat option \<Rightarrow> nat option \<Rightarrow> unit run" where
  "crt_to_pem E crt crt_bytes crt_size =
     and_then (call ''crt_to_pem'') (\<lambda>_.
     and_then (BIO_new BIO_s_mem) (\<lambda>bio.
     and_then (PEM_write_bio_X509 E bio crt) (\<lambda>_.
     and_then (BIO_pending bio) (\<lambda>n.
     and_then (set_size_var crt_size n) (\<lambda>_.
     and_then (get_size_var crt_size) (\<lambda>n1.
     and_then (malloc (n1 + 1)) (\<lambda>p.
     and_then (set_buf_var crt_bytes p) (\<lambda>_.
     and_then (get_buf_var crt_bytes) (\<lambda>b.
     and_then (get_size_var crt_size) (\<lambda>n2.
     and_then (BIO_read bio b n2) (\<lambda>_.
     BIO_free_all bio)))))))))))"

definition key_to_pem :: "env \<Rightarrow> ptr \<Rightarrow> nat option \<Rightarrow> nat option \<Rightarrow> unit run" where
  "key_to_pem E key key_bytes key_size =
     and_then (call ''key_to_pem'') (\<lambda>_.
     and_then (BIO_new BIO_s_mem) (\<lambda>bio.
     and_then (PEM_write_bio_PrivateKey E bio key None None 0 None None) (\<lambda>_.
     and_then (BIO_pending bio) (\<lambda>n.
     and_then (set_size_var key_size n) (\<lambda>_.
     and_then (get_size_var key_size) (\<lambda>n1.
     and_then (malloc (n1 + 1)) (\<lambda>p.
     and_then (set_buf_var key_bytes p) (\<lambda>_.
     and_then (get_buf_var key_bytes) (\<lambda>b.
     and_then (get_size_var key_size) (\<lambda>n2.
     and_then (BIO_read bio b n2) (\<lambda>_.
     BIO_free_all bio)))))))))))"

subsection \<open>load_ca\<close>

text \<open>The \<^verbatim>\<open>err:\<close> label of \<^verbatim>\<open>load_ca\<close>.\<close>

definition load_ca_err :: "ptr \<Rightarrow> nat option \<Rightarrow> nat option \<Rightarrow> int run" where
  "load_ca_err bio ca_key ca_crt =
     and_then (BIO_free_all bio) (\<lambda>_.
     and_then (get_crt_var ca_crt) (\<lambda>c.
     and_then (X509_free c) (\<lambda>_.
     and_then (get_pkey_var ca_key) (\<lambda>k.
     and_then (EVP_PKEY_free k) (\<lambda>_.
     ret 0)))))"

text \<open>
  \<open>ca_key\<close> and \<open>ca_crt\<close> are the out-parameters themselves (\<^verbatim>\<open>EVP_PKEY **\<close>, \<^verbatim>\<open>X509 **\<close>):
  the addresses of the caller's variables. Line 182 tests \<^verbatim>\<open>*ca_crt\<close>; line 189 tests
  \<^verbatim>\<open>ca_key\<close>, the address.
\<close>

definition load_ca :: "env \<Rightarrow> string \<Rightarrow> nat option \<Rightarrow> string \<Rightarrow> nat option \<Rightarrow> int run" where
  "load_ca E ca_key_path ca_key ca_crt_path ca_crt =
     and_then (call ''load_ca'') (\<lambda>_.
     and_then (set_crt_var ca_crt None) (\<lambda>_.
     and_then (set_pkey_var ca_key None) (\<lambda>_.
     and_then (BIO_new BIO_s_file) (\<lambda>bio.
     and_then (BIO_read_filename bio ca_crt_path) (\<lambda>opened.
     if opened = 0 then load_ca_err bio ca_key ca_crt else
     and_then (PEM_read_bio_X509 E bio) (\<lambda>c.
     and_then (set_crt_var ca_crt c) (\<lambda>_.
     and_then (get_crt_var ca_crt) (\<lambda>c1.
     if c1 = None then load_ca_err bio ca_key ca_crt else
     and_then (BIO_free_all bio) (\<lambda>_.
     and_then (BIO_new BIO_s_file) (\<lambda>bio.
     and_then (BIO_read_filename bio ca_key_path) (\<lambda>opened.
     if opened = 0 then load_ca_err bio ca_key ca_crt else
     and_then (PEM_read_bio_PrivateKey E bio) (\<lambda>k.
     and_then (set_pkey_var ca_key k) (\<lambda>_.
     if ca_key = None then load_ca_err bio ca_key ca_crt else
     and_then (BIO_free_all bio) (\<lambda>_.
     ret 1))))))))))))))"

subsection \<open>generate_signed_key_pair, usage and main\<close>

text \<open>
  The body of \<^verbatim>\<open>generate_signed_key_pair\<close> is empty: control reaches the closing brace of a
  function declared to return \<^verbatim>\<open>int\<close>, so there is no result (\<open>None\<close>).
\<close>

definition generate_signed_key_pair ::
  "ptr \<Rightarrow> ptr \<Rightarrow> nat option \<Rightarrow> nat option \<Rightarrow> int option run" where
  "generate_signed_key_pair ca_key ca_crt key crt =
     and_then (call ''generate_signed_key_pair'') (\<lambda>_. ret None)"

definition usage :: "unit run" where
  "usage = call ''usage''"

text \<open>\<^verbatim>\<open>main\<close> reaches its closing brace, which in C99 returns 0.\<close>

definition main :: "int \<Rightarrow> string list \<Rightarrow> int run" where
  "main argc argv =
     and_then (call ''main'') (\<lambda>_.
     and_then initialize (\<lambda>_.
     ret 0))"

section \<open>Observations\<close>

text \<open>
  Observing a run from a state: its result (or fault), the state it leaves, and the calls
  it makes (those it adds to the log; none for a fault).
\<close>

definition result_of :: "'a run \<Rightarrow> world \<Rightarrow> fault + 'a" where
  "result_of m w = (case m w of Inl e \<Rightarrow> Inl e | Inr (x, _) \<Rightarrow> Inr x)"

definition state_after :: "'a run \<Rightarrow> world \<Rightarrow> world" where
  "state_after m w = (case m w of Inl _ \<Rightarrow> w | Inr (_, w') \<Rightarrow> w')"

definition calls_made :: "'a run \<Rightarrow> world \<Rightarrow> string list" where
  "calls_made m w =
     (case m w of Inl _ \<Rightarrow> [] | Inr (_, w') \<Rightarrow> drop (length (calls w)) (calls w'))"


section \<open>Concrete states and environments\<close>

text \<open>
  A process that has just started, with the two CA files of the default paths on disk; the
  caller's variables all hold \<^verbatim>\<open>NULL\<close>.
\<close>

definition crt_file_bytes :: "byte list" where
  "crt_file_bytes = [0x43, 0x52, 0x54]"

definition key_file_bytes :: "byte list" where
  "key_file_bytes = [0x4B, 0x45, 0x59]"

definition start_world :: world where
  "start_world =
     \<lparr>calls = [], next_addr = 0, pkeys = Map.empty, reqs = Map.empty, certs = Map.empty,
      bios = Map.empty, bufs = Map.empty,
      pkey_vars = (\<lambda>_. None), req_vars = (\<lambda>_. None), crt_vars = (\<lambda>_. None),
      buf_vars = (\<lambda>_. None), size_vars = (\<lambda>_. 0),
      files = [RSA_SERVER_CERT \<mapsto> crt_file_bytes, RSA_SERVER_KEY \<mapsto> key_file_bytes],
      err_strings_loaded = False, algorithms_loaded = False, config_loaded = False\<rparr>"

text \<open>Two different key pairs, and a self-signed CA certificate for the first.\<close>

definition ca_rsa :: rsa_key where
  "ca_rsa = \<lparr>rsa_bits = 4096, rsa_e = 65537, rsa_n = 1\<rparr>"

definition other_rsa :: rsa_key where
  "other_rsa = \<lparr>rsa_bits = 4096, rsa_e = 65537, rsa_n = 2\<rparr>"

definition ca_certificate :: x509 where
  "ca_certificate =
     \<lparr>crt_subject = [(''CN'', ''Root CA'')], crt_issuer = [(''CN'', ''Root CA'')],
      crt_pubkey = pub_of ca_rsa, crt_serial = 1, crt_signed_by = Some (pub_of ca_rsa)\<rparr>"

text \<open>
  An environment in which every call succeeds: key generation yields the modulus 77, the
  certificate file decodes to the CA certificate and the key file to the CA key.
\<close>

definition good_env :: env where
  "good_env =
     \<lparr>EVP_PKEY_new_ok = True, X509_REQ_new_ok = True, RSA_keygen = Some 77,
      X509_REQ_set_pubkey_ok = True, X509_REQ_sign_ok = True,
      PEM_parse_X509 = (\<lambda>bs. if bs = crt_file_bytes then Some ca_certificate else None),
      PEM_parse_PrivateKey = (\<lambda>bs. if bs = key_file_bytes then Some ca_rsa else None),
      PEM_X509_bytes = (\<lambda>c. [0x2D, 0x2D, of_nat (crt_serial c)]),
      PEM_plain_PrivateKey = (\<lambda>k. [0x2D, 0x2D, of_nat (rsa_n k)]),
      PEM_encrypted_PrivateKey = (\<lambda>c pass k. [0x2D, 0x2D, 0x45])\<rparr>"

text \<open>The same, but the key file decodes to a key that is not the certificate's.\<close>

definition mismatched_env :: env where
  "mismatched_env =
     good_env\<lparr>PEM_parse_PrivateKey :=
       (\<lambda>bs. if bs = key_file_bytes then Some other_rsa else None)\<rparr>"

text \<open>The same as \<open>good_env\<close>, but the key file does not decode.\<close>

definition corrupt_key_env :: env where
  "corrupt_key_env = good_env\<lparr>PEM_parse_PrivateKey := (\<lambda>bs. None)\<rparr>"


text \<open>
  A caller whose \<^verbatim>\<open>X509_REQ *\<close> variable 0 was never initialised and holds an address at
  which there is no request, while \<^verbatim>\<open>EVP_PKEY_new\<close> finds no memory.
\<close>

definition uninitialised_world :: world where
  "uninitialised_world = start_world\<lparr>req_vars := (\<lambda>_. Some 5)\<rparr>"

definition no_memory_env :: env where
  "no_memory_env = good_env\<lparr>EVP_PKEY_new_ok := False\<rparr>"

text \<open>A state that holds the loaded CA key (at 0) and CA certificate (at 1).\<close>

definition ca_world :: world where
  "ca_world =
     start_world\<lparr>next_addr := 2,
       pkeys := [0 \<mapsto> \<lparr>pkey_rsa = Some ca_rsa\<rparr>],
       certs := [1 \<mapsto> ca_certificate]\<rparr>"


section \<open>Unfolding the model\<close>

lemmas monad_defs = and_then_def call_def ret_def

lemmas var_defs =
  set_pkey_var_def get_pkey_var_def set_req_var_def get_req_var_def set_crt_var_def
  get_crt_var_def set_buf_var_def get_buf_var_def set_size_var_def get_size_var_def

lemmas csr_lib_defs =
  EVP_PKEY_new_def X509_REQ_new_def RSA_generate_key_def EVP_PKEY_assign_RSA_def
  X509_REQ_set_pubkey_def X509_REQ_get_subject_name_def X509_NAME_add_entry_by_txt_def
  X509_REQ_sign_def EVP_PKEY_free_def X509_REQ_free_def EVP_sha256_def

lemmas ca_lib_defs =
  BIO_new_def BIO_free_all_def BIO_read_filename_def PEM_read_bio_X509_def
  PEM_read_bio_PrivateKey_def X509_free_def EVP_PKEY_free_def

lemmas pem_lib_defs =
  BIO_new_def BIO_free_all_def PEM_write_bio_X509_def PEM_write_bio_PrivateKey_def
  BIO_pending_def malloc_def BIO_read_def

lemmas dn_defs =
  REQ_DN_C_def REQ_DN_ST_def REQ_DN_L_def REQ_DN_O_def REQ_DN_OU_def REQ_DN_CN_def

lemmas init_defs =
  initialize_def ERR_load_crypto_strings_def OpenSSL_add_all_algorithms_def OPENSSL_config_def


section \<open>main\<close>

lemma main_result:
  "main argc argv w = Inr (0,
     w\<lparr>calls := calls w @ [''main'', ''initialize'', ''ERR_load_crypto_strings'',
                            ''OpenSSL_add_all_algorithms'', ''OPENSSL_config''],
       err_strings_loaded := True, algorithms_loaded := True, config_loaded := True\<rparr>)"
  by (simp add: main_def init_defs monad_defs)

text \<open>
  C3. In every state and for every command line, \<^verbatim>\<open>main\<close> enters \<^verbatim>\<open>initialize\<close>, which makes
  the three set-up calls of libcrypto, and returns 0. Nothing else is called: not
  \<^verbatim>\<open>load_ca\<close>, not the issuer \<^verbatim>\<open>generate_signed_key_pair\<close>, not \<^verbatim>\<open>server_loop\<close>, no socket
  call (\<^verbatim>\<open>socket\<close>, \<^verbatim>\<open>bind\<close>, \<^verbatim>\<open>listen\<close>, \<^verbatim>\<open>accept\<close>), and not \<^verbatim>\<open>cleanup\<close>. The heaps, the files
  and the caller's variables are as before; libcrypto is left set up.
\<close>

theorem main_only_initializes:
  "main argc argv w = Inr (0,
     w\<lparr>calls := calls w @ [''main'', ''initialize'', ''ERR_load_crypto_strings'',
                            ''OpenSSL_add_all_algorithms'', ''OPENSSL_config''],
       err_strings_loaded := True, algorithms_loaded := True, config_loaded := True\<rparr>)
   \<and> calls_made (main argc argv) w =
       [''main'', ''initialize'', ''ERR_load_crypto_strings'',
        ''OpenSSL_add_all_algorithms'', ''OPENSSL_config'']
   \<and> list_all (\<lambda>f. f \<notin> set (calls_made (main argc argv) w))
       [''load_ca'', ''generate_signed_key_pair'', ''generate_csr'', ''server_loop'',
        ''cleanup'', ''EVP_cleanup'', ''socket'', ''bind'', ''listen'', ''accept'',
        ''BIO_read_filename'']"
  by (simp add: main_result calls_made_def)


section \<open>generate_signed_key_pair\<close>

text \<open>
  C2, as the code has it. \<^verbatim>\<open>generate_signed_key_pair\<close> is a stub: for all arguments and in
  every state it only returns, without a result, and leaves the state as it was (the log
  of calls apart). It builds and signs no certificate and assigns neither \<^verbatim>\<open>*key\<close> nor
  \<^verbatim>\<open>*crt\<close>.
\<close>

theorem generate_signed_key_pair_does_nothing:
  "generate_signed_key_pair ca_key ca_crt key crt w =
     Inr (None, w\<lparr>calls := calls w @ [''generate_signed_key_pair'']\<rparr>)"
  by (simp add: generate_signed_key_pair_def monad_defs)

text \<open>
  C2 fails as stated. With a valid CA identity loaded (the key at 0, its self-signed
  certificate at 1) and the caller's \<^verbatim>\<open>key\<close> and \<^verbatim>\<open>crt\<close> variables \<^verbatim>\<open>NULL\<close>, the call leaves
  \<^verbatim>\<open>*crt\<close> and \<^verbatim>\<open>*key\<close> \<^verbatim>\<open>NULL\<close> and the CA certificate the only certificate in memory: no
  certificate is returned, so none that verifies against the CA key.
\<close>

theorem generate_signed_key_pair_issues_nothing:
  "generate_signed_key_pair (Some 0) (Some 1) (Some 0) (Some 0) ca_world =
     Inr (None, ca_world\<lparr>calls := [''generate_signed_key_pair'']\<rparr>)
   \<and> pkeys ca_world 0 = Some \<lparr>pkey_rsa = Some ca_rsa\<rparr>
   \<and> certs ca_world 1 = Some ca_certificate
   \<and> crt_signed_by ca_certificate = Some (pub_of ca_rsa)
   \<and> crt_vars (ca_world\<lparr>calls := [''generate_signed_key_pair'']\<rparr>) 0 = None
   \<and> pkey_vars (ca_world\<lparr>calls := [''generate_signed_key_pair'']\<rparr>) 0 = None
   \<and> dom (certs (ca_world\<lparr>calls := [''generate_signed_key_pair'']\<rparr>)) = {1}"
  by (simp add: generate_signed_key_pair_def monad_defs ca_world_def start_world_def
      ca_certificate_def)


section \<open>generate_csr\<close>

text \<open>
  The run in which every tested call succeeds, and the state it ends in. The request
  holds the public key only if \<^verbatim>\<open>X509_REQ_set_pubkey\<close> succeeded as well.
\<close>

lemma generate_csr_success:
  assumes "EVP_PKEY_new_ok E" "X509_REQ_new_ok E" "RSA_keygen E = Some n" "X509_REQ_sign_ok E"
  shows "generate_csr E (Some kv) (Some rq) w = Inr (1,
     w\<lparr>calls := calls w @ [''generate_csr'', ''EVP_PKEY_new'', ''X509_REQ_new'',
          ''RSA_generate_key'', ''EVP_PKEY_assign_RSA'',
          ''X509_REQ_set_pubkey'', ''X509_REQ_get_subject_name'',
          ''X509_NAME_add_entry_by_txt'', ''X509_NAME_add_entry_by_txt'',
          ''X509_NAME_add_entry_by_txt'', ''X509_NAME_add_entry_by_txt'',
          ''X509_NAME_add_entry_by_txt'', ''X509_NAME_add_entry_by_txt'',
          ''X509_REQ_sign''],
       next_addr := Suc (Suc (next_addr w)),
       pkeys := (pkeys w)(next_addr w \<mapsto>
          \<lparr>pkey_rsa = Some \<lparr>rsa_bits = RSA_KEY_BITS, rsa_e = RSA_F4, rsa_n = n\<rparr>\<rparr>),
       reqs := (reqs w)(Suc (next_addr w) \<mapsto>
          \<lparr>req_subject = [(''C'', REQ_DN_C), (''ST'', REQ_DN_ST), (''O'', REQ_DN_O),
                          (''OU'', REQ_DN_OU), (''CN'', REQ_DN_CN)],
           req_pubkey =
             (if X509_REQ_set_pubkey_ok E
              then Some (pub_of \<lparr>rsa_bits = RSA_KEY_BITS, rsa_e = RSA_F4, rsa_n = n\<rparr>)
              else None),
           req_signature = Some
             \<lparr>sig_md = SHA256,
              sig_by = pub_of \<lparr>rsa_bits = RSA_KEY_BITS, rsa_e = RSA_F4, rsa_n = n\<rparr>,
              sig_subject = [(''C'', REQ_DN_C), (''ST'', REQ_DN_ST), (''O'', REQ_DN_O),
                             (''OU'', REQ_DN_OU), (''CN'', REQ_DN_CN)],
              sig_pubkey =
                (if X509_REQ_set_pubkey_ok E
                 then Some (pub_of \<lparr>rsa_bits = RSA_KEY_BITS, rsa_e = RSA_F4, rsa_n = n\<rparr>)
                 else None)\<rparr>\<rparr>),
       pkey_vars := (pkey_vars w)(kv := Some (next_addr w)),
       req_vars := (req_vars w)(rq := Some (Suc (next_addr w)))\<rparr>)"
  using assms
  by (cases "X509_REQ_set_pubkey_ok E")
    (simp_all add: generate_csr_def monad_defs var_defs csr_lib_defs RSA_KEY_BITS_def dn_defs)

text \<open>A result other than 0 comes from that run only.\<close>

lemma generate_csr_nonzero:
  assumes "generate_csr E key req w = Inr (rv, w')" and "rv \<noteq> 0"
  shows "\<exists>kv rq n. key = Some kv \<and> req = Some rq \<and> EVP_PKEY_new_ok E \<and> X509_REQ_new_ok E
           \<and> RSA_keygen E = Some n \<and> X509_REQ_sign_ok E"
proof (cases key)
  case None
  with assms show ?thesis
    by (cases "EVP_PKEY_new_ok E")
      (simp_all add: generate_csr_def monad_defs var_defs csr_lib_defs)
next
  case key: (Some kv)
  show ?thesis
  proof (cases "EVP_PKEY_new_ok E")
    case False
    with assms key show ?thesis
      by (simp add: generate_csr_def generate_csr_err_def monad_defs var_defs csr_lib_defs
          split: option.splits)
  next
    case pk: True
    show ?thesis
    proof (cases req)
      case None
      with assms key pk show ?thesis
        by (cases "X509_REQ_new_ok E")
          (simp_all add: generate_csr_def monad_defs var_defs csr_lib_defs)
    next
      case req: (Some rq)
      show ?thesis
      proof (cases "X509_REQ_new_ok E")
        case False
        with assms key pk req show ?thesis
          by (simp add: generate_csr_def generate_csr_err_def monad_defs var_defs csr_lib_defs)
      next
        case rn: True
        show ?thesis
        proof (cases "RSA_keygen E")
          case None
          with assms key pk req rn show ?thesis
            by (simp add: generate_csr_def generate_csr_err_def monad_defs var_defs
                csr_lib_defs)
        next
          case kg: (Some n)
          show ?thesis
          proof (cases "X509_REQ_sign_ok E")
            case False
            with assms key pk req rn kg show ?thesis
              by (cases "X509_REQ_set_pubkey_ok E")
                (simp_all add: generate_csr_def generate_csr_err_def monad_defs var_defs
                  csr_lib_defs RSA_KEY_BITS_def dn_defs)
          next
            case True
            with key pk req rn kg show ?thesis by simp
          qed
        qed
      qed
    qed
  qed
qed


text \<open>
  Where \<^verbatim>\<open>X509_REQ_set_pubkey\<close> does succeed, a run that returns 1 leaves in \<^verbatim>\<open>*key\<close> the key
  pair generated in this call and in \<^verbatim>\<open>*req\<close> a request that carries the public half of
  that key, is signed by that key with SHA-256 (so neither MD5 nor SHA-1), and whose
  signature verifies against the public key it carries.
\<close>

lemma generate_csr_self_signed_when_pubkey_set:
  assumes "generate_csr E key req w = Inr (1, w')" and "X509_REQ_set_pubkey_ok E"
  shows "\<exists>kv rq k r K R s.
           key = Some kv \<and> req = Some rq
         \<and> pkey_vars w' kv = Some k \<and> pkeys w' k = Some \<lparr>pkey_rsa = Some K\<rparr>
         \<and> RSA_keygen E = Some (rsa_n K)
         \<and> req_vars w' rq = Some r \<and> reqs w' r = Some R
         \<and> req_pubkey R = Some (pub_of K)
         \<and> req_signature R = Some s
         \<and> sig_md s = SHA256 \<and> sig_md s \<noteq> MD5 \<and> sig_md s \<noteq> SHA1
         \<and> sig_by s = pub_of K
         \<and> X509_REQ_verify R (pub_of K)"
proof -
  from generate_csr_nonzero [OF assms(1)]
  obtain kv rq n where *: "key = Some kv" "req = Some rq" "EVP_PKEY_new_ok E"
    "X509_REQ_new_ok E" "RSA_keygen E = Some n" "X509_REQ_sign_ok E"
    by auto
  from assms(1) *(1,2)
  have w': "w' = snd (projr (generate_csr E (Some kv) (Some rq) w))"
    by simp
  show ?thesis
    unfolding w' *(1,2) generate_csr_success [OF *(3-6)]
    using *(5) assms(2) by (simp add: X509_REQ_verify_def)
qed

text \<open>
  C10. Whenever \<^verbatim>\<open>generate_csr\<close> returns 1, the key pair in \<^verbatim>\<open>*key\<close> is an RSA key with a
  modulus of \<^verbatim>\<open>RSA_KEY_BITS\<close> = 4096 bits and the public exponent \<^verbatim>\<open>RSA_F4\<close>.
\<close>

theorem generate_csr_key_strength:
  assumes "generate_csr E key req w = Inr (1, w')"
  shows "\<exists>kv k K. key = Some kv \<and> pkey_vars w' kv = Some k
         \<and> pkeys w' k = Some \<lparr>pkey_rsa = Some K\<rparr>
         \<and> rsa_bits K = RSA_KEY_BITS \<and> rsa_bits K = 4096 \<and> rsa_e K = RSA_F4"
proof -
  from generate_csr_nonzero [OF assms]
  obtain kv rq n where *: "key = Some kv" "req = Some rq" "EVP_PKEY_new_ok E"
    "X509_REQ_new_ok E" "RSA_keygen E = Some n" "X509_REQ_sign_ok E"
    by auto
  from assms *(1,2)
  have w': "w' = snd (projr (generate_csr E (Some kv) (Some rq) w))"
    by simp
  show ?thesis
    unfolding w' *(1,2) generate_csr_success [OF *(3-6)]
    by (simp add: RSA_KEY_BITS_def)
qed

text \<open>C10 at a concrete run: the key at address 0 has 4096 bits and exponent 65537.\<close>

theorem generate_csr_key_strength_witness:
  "\<exists>w'. generate_csr good_env (Some 0) (Some 0) start_world = Inr (1, w')
     \<and> pkeys w' 0 = Some \<lparr>pkey_rsa = Some \<lparr>rsa_bits = 4096, rsa_e = 65537, rsa_n = 77\<rparr>\<rparr>"
proof -
  obtain w' where run: "generate_csr good_env (Some 0) (Some 0) start_world = Inr (1, w')"
    and nxt: "pkey_vars w' 0 = Some 0"
      "pkeys w' 0 = Some \<lparr>pkey_rsa = Some \<lparr>rsa_bits = 4096, rsa_e = 65537, rsa_n = 77\<rparr>\<rparr>"
    using generate_csr_success [of good_env 77 0 0 start_world]
    by (simp add: good_env_def start_world_def RSA_KEY_BITS_def RSA_F4_def)
  from generate_csr_key_strength [OF run] nxt run show ?thesis
    by auto
qed

text \<open>
  C6 fails at this input. \<^verbatim>\<open>EVP_PKEY_new\<close> returns \<^verbatim>\<open>NULL\<close>, so line 77 jumps to \<^verbatim>\<open>err\<close> before
  \<^verbatim>\<open>*req\<close> has been assigned; line 105 then passes the caller's \<^verbatim>\<open>*req\<close> to \<^verbatim>\<open>X509_REQ_free\<close>.
  The caller never initialised that variable (it holds the address 5, where no request
  lives): the call frees an invalid pointer instead of returning the error result.
\<close>

theorem generate_csr_invalid_free:
  "generate_csr no_memory_env (Some 0) (Some 0) uninitialised_world = Inl InvalidPointer
   \<and> \<not> EVP_PKEY_new_ok no_memory_env
   \<and> req_vars uninitialised_world 0 = Some 5
   \<and> reqs uninitialised_world 5 = None"
  by (simp add: generate_csr_def generate_csr_err_def monad_defs var_defs csr_lib_defs
      no_memory_env_def good_env_def uninitialised_world_def start_world_def)

text \<open>
  Everywhere else the error path does discard what was built: when a tested step fails
  and, should that step be the first allocation, the caller's \<^verbatim>\<open>*req\<close> is \<^verbatim>\<open>NULL\<close> or a live
  request, \<^verbatim>\<open>generate_csr\<close> returns 0 and neither \<^verbatim>\<open>*key\<close> nor \<^verbatim>\<open>*req\<close> points to a live object
  (they are \<^verbatim>\<open>NULL\<close> or dangle).
\<close>

lemma generate_csr_failure_discards:
  assumes fails: "\<not> EVP_PKEY_new_ok E \<or> \<not> X509_REQ_new_ok E \<or> RSA_keygen E = None
                  \<or> \<not> X509_REQ_sign_ok E"
    and entry: "EVP_PKEY_new_ok E \<or>
                  (case req_vars w rq of None \<Rightarrow> True | Some a \<Rightarrow> reqs w a \<noteq> None)"
  shows "\<exists>w'. generate_csr E (Some kv) (Some rq) w = Inr (0, w')
           \<and> (case pkey_vars w' kv of None \<Rightarrow> True | Some a \<Rightarrow> pkeys w' a = None)
           \<and> (case req_vars w' rq of None \<Rightarrow> True | Some a \<Rightarrow> reqs w' a = None)"
proof (cases "EVP_PKEY_new_ok E")
  case False
  with entry show ?thesis
    by (auto simp add: generate_csr_def generate_csr_err_def monad_defs var_defs csr_lib_defs
        split: option.splits)
next
  case pk: True
  show ?thesis
  proof (cases "X509_REQ_new_ok E")
    case False
    with pk show ?thesis
      by (simp add: generate_csr_def generate_csr_err_def monad_defs var_defs csr_lib_defs)
  next
    case rn: True
    show ?thesis
    proof (cases "RSA_keygen E")
      case None
      with pk rn show ?thesis
        by (simp add: generate_csr_def generate_csr_err_def monad_defs var_defs csr_lib_defs)
    next
      case (Some n)
      with fails pk rn have "\<not> X509_REQ_sign_ok E" by simp
      with pk rn Some show ?thesis
        by (cases "X509_REQ_set_pubkey_ok E")
          (simp_all add: generate_csr_def generate_csr_err_def monad_defs var_defs
            csr_lib_defs RSA_KEY_BITS_def dn_defs)
    qed
  qed
qed


section \<open>crt_to_pem and key_to_pem\<close>

lemma drop_Cons_replicate: "drop n (x # replicate n x) = [x]"
  using drop_replicate [of n "Suc n" x] by simp

text \<open>
  \<^verbatim>\<open>crt_to_pem\<close> hands back exactly the bytes the PEM writer produced for the certificate,
  and their number; the extra byte of the buffer is never written (the text is not
  terminated).
\<close>

lemma crt_to_pem_bytes:
  assumes "certs w c = Some C"
  shows "\<exists>w' b. crt_to_pem E (Some c) (Some bv) (Some sv) w = Inr ((), w')
           \<and> size_vars w' sv = length (PEM_X509_bytes E C)
           \<and> buf_vars w' bv = Some b
           \<and> bufs w' b = Some (map Some (PEM_X509_bytes E C) @ [None])"
  using assms
  by (simp add: crt_to_pem_def monad_defs var_defs pem_lib_defs drop_Cons_replicate)

text \<open>
  C9. For every key (a live \<^verbatim>\<open>EVP_PKEY\<close> that holds a key pair), \<^verbatim>\<open>key_to_pem\<close> asks the PEM
  writer for the encoding without cipher and passphrase: \<^verbatim>\<open>*key_size\<close> is the length of the
  clear-text PEM encoding of the private key and \<^verbatim>\<open>*key_bytes\<close> points to a buffer that holds
  exactly those bytes, followed by one byte that was never written. The encrypting writer
  plays no part: replacing it changes nothing.
\<close>

theorem key_to_pem_plaintext:
  assumes "pkeys w k = Some \<lparr>pkey_rsa = Some K\<rparr>"
  shows "(\<exists>w' b. key_to_pem E (Some k) (Some bv) (Some sv) w = Inr ((), w')
           \<and> size_vars w' sv = length (PEM_plain_PrivateKey E K)
           \<and> buf_vars w' bv = Some b
           \<and> bufs w' b = Some (map Some (PEM_plain_PrivateKey E K) @ [None]))
       \<and> (\<forall>f. key_to_pem (E\<lparr>PEM_encrypted_PrivateKey := f\<rparr>) (Some k) (Some bv) (Some sv) w
              = key_to_pem E (Some k) (Some bv) (Some sv) w)"
  using assms
  by (simp add: key_to_pem_def monad_defs var_defs pem_lib_defs drop_Cons_replicate)

text \<open>
  C9 at a concrete key: the CA key (modulus 1) under a writer whose clear-text encoding of
  a key is the three bytes 0x2D, 0x2D and the modulus.
\<close>

theorem key_to_pem_plaintext_witness:
  "\<exists>w' b. key_to_pem good_env (Some 0) (Some 0) (Some 0) ca_world = Inr ((), w')
     \<and> size_vars w' 0 = 3
     \<and> buf_vars w' 0 = Some b
     \<and> bufs w' b = Some [Some 0x2D, Some 0x2D, Some 1, None]"
  using key_to_pem_plaintext [of ca_world 0 ca_rsa good_env 0 0]
  by (simp add: ca_world_def good_env_def ca_rsa_def numeral_3_eq_3)


section \<open>load_ca\<close>

text \<open>
  C1 fails at this input. Both default files are readable and the certificate decodes,
  but the key file does not (\<^verbatim>\<open>PEM_read_bio_PrivateKey\<close> returns \<^verbatim>\<open>NULL\<close>). Line 189 tests the
  out-parameter \<^verbatim>\<open>ca_key\<close>, not \<^verbatim>\<open>*ca_key\<close>, so \<^verbatim>\<open>load_ca\<close> returns 1 and leaves \<^verbatim>\<open>*ca_key\<close>
  \<^verbatim>\<open>NULL\<close>.
\<close>

theorem load_ca_reports_success_without_key:
  "result_of (load_ca corrupt_key_env RSA_SERVER_KEY (Some 0) RSA_SERVER_CERT (Some 0))
     start_world = Inr 1
   \<and> files start_world RSA_SERVER_CERT = Some crt_file_bytes
   \<and> PEM_parse_X509 corrupt_key_env crt_file_bytes = Some ca_certificate
   \<and> files start_world RSA_SERVER_KEY = Some key_file_bytes
   \<and> PEM_parse_PrivateKey corrupt_key_env key_file_bytes = None
   \<and> pkey_vars (state_after (load_ca corrupt_key_env RSA_SERVER_KEY (Some 0) RSA_SERVER_CERT
        (Some 0)) start_world) 0 = None"
  by (simp add: result_of_def state_after_def load_ca_def monad_defs var_defs ca_lib_defs
      start_world_def corrupt_key_env_def good_env_def RSA_SERVER_CERT_def RSA_SERVER_KEY_def
      crt_file_bytes_def key_file_bytes_def)

text \<open>
  The same in general: whenever both files are readable and the certificate decodes, a
  key file that does not decode still yields the result 1, with \<^verbatim>\<open>*ca_key\<close> \<^verbatim>\<open>NULL\<close>.
\<close>

lemma load_ca_key_parse_failure:
  assumes "files w ca_crt_path = Some cb" and "PEM_parse_X509 E cb = Some C"
    and "files w ca_key_path = Some kb" and "PEM_parse_PrivateKey E kb = None"
  shows "\<exists>w'. load_ca E ca_key_path (Some kv) ca_crt_path (Some cv) w = Inr (1, w')
           \<and> pkey_vars w' kv = None"
  using assms
  by (simp add: load_ca_def monad_defs var_defs ca_lib_defs)

text \<open>
  C4, as the code has it. \<^verbatim>\<open>load_ca\<close> never compares the key with the certificate: whenever
  both files are readable and both decode, it returns 1 with \<^verbatim>\<open>*ca_crt\<close> the decoded
  certificate and \<^verbatim>\<open>*ca_key\<close> the decoded key, whatever public key the certificate carries.
\<close>

theorem load_ca_no_correspondence_check:
  assumes "files w ca_crt_path = Some cb" and "PEM_parse_X509 E cb = Some C"
    and "files w ca_key_path = Some kb" and "PEM_parse_PrivateKey E kb = Some K"
  shows "\<exists>w' c k. load_ca E ca_key_path (Some kv) ca_crt_path (Some cv) w = Inr (1, w')
           \<and> crt_vars w' cv = Some c \<and> certs w' c = Some C
           \<and> pkey_vars w' kv = Some k \<and> pkeys w' k = Some \<lparr>pkey_rsa = Some K\<rparr>"
  using assms
  by (simp add: load_ca_def monad_defs var_defs ca_lib_defs)

text \<open>
  C4, as the code has it, at a concrete input: the certificate file holds the CA
  certificate and the key file another key.
\<close>

theorem load_ca_no_correspondence_check_witness:
  "\<exists>w' c k. load_ca mismatched_env RSA_SERVER_KEY (Some 0) RSA_SERVER_CERT (Some 0) start_world
               = Inr (1, w')
     \<and> crt_vars w' 0 = Some c \<and> certs w' c = Some ca_certificate
     \<and> pkey_vars w' 0 = Some k \<and> pkeys w' k = Some \<lparr>pkey_rsa = Some other_rsa\<rparr>"
  using load_ca_no_correspondence_check [of start_world RSA_SERVER_CERT crt_file_bytes
      mismatched_env ca_certificate RSA_SERVER_KEY key_file_bytes other_rsa 0 0]
  by (simp add: start_world_def mismatched_env_def good_env_def RSA_SERVER_CERT_def
      RSA_SERVER_KEY_def)

text \<open>
  C4 fails as stated. The key file decodes to a key (modulus 2) that does not correspond
  to the public key of the decoded certificate (modulus 1), and \<^verbatim>\<open>load_ca\<close> returns 1 and
  hands both back.
\<close>

theorem load_ca_accepts_mismatched_pair:
  "result_of (load_ca mismatched_env RSA_SERVER_KEY (Some 0) RSA_SERVER_CERT (Some 0))
     start_world = Inr 1
   \<and> pkey_vars (state_after (load_ca mismatched_env RSA_SERVER_KEY (Some 0) RSA_SERVER_CERT
        (Some 0)) start_world) 0 = Some 3
   \<and> pkeys (state_after (load_ca mismatched_env RSA_SERVER_KEY (Some 0) RSA_SERVER_CERT
        (Some 0)) start_world) 3 = Some \<lparr>pkey_rsa = Some other_rsa\<rparr>
   \<and> crt_vars (state_after (load_ca mismatched_env RSA_SERVER_KEY (Some 0) RSA_SERVER_CERT
        (Some 0)) start_world) 0 = Some 1
   \<and> certs (state_after (load_ca mismatched_env RSA_SERVER_KEY (Some 0) RSA_SERVER_CERT
        (Some 0)) start_world) 1 = Some ca_certificate
   \<and> crt_pubkey ca_certificate \<noteq> pub_of other_rsa"
  by (simp add: result_of_def state_after_def load_ca_def monad_defs var_defs ca_lib_defs
      start_world_def mismatched_env_def good_env_def RSA_SERVER_CERT_def RSA_SERVER_KEY_def
      crt_file_bytes_def key_file_bytes_def ca_certificate_def pub_of_def ca_rsa_def
      other_rsa_def)

end
